theory Spec2Isabelle
  imports Main
begin

section \<open>JavaScript objects, as far as the registry uses them\<close>

text \<open>
  The registry of \<^verbatim>\<open>llmChatTemplates.ts\<close> is an object literal, so it is an ordinary
  JavaScript object: a collection of own properties whose prototype is
  \<^verbatim>\<open>Object.prototype\<close>. The three operations of the class read and write it with
  \<^verbatim>\<open>model in this.registry\<close>, \<^verbatim>\<open>this.registry[model]\<close>,
  \<^verbatim>\<open>this.registry[model] = template\<close> and \<^verbatim>\<open>Object.keys(this.registry)\<close>.
  The own properties are kept as an association list in the order in which
  \<^verbatim>\<open>Object.keys\<close> lists them: array indices first, in ascending numeric order, then
  the other keys in the order of their creation.
\<close>

type_synonym 'v props = "(string \<times> 'v) list"

definition is_digit :: "char \<Rightarrow> bool" where
  "is_digit c = (c \<in> set ''0123456789'')"

fun digits_value :: "int \<Rightarrow> string \<Rightarrow> int" where
  "digits_value acc [] = acc"
| "digits_value acc (c # cs) = digits_value (10 * acc + (of_char c - 48)) cs"

text \<open>
  An array index is a canonical numeric string (no sign, no leading zero) whose value is
  at most \<open>2^32 - 2\<close>.
\<close>

definition array_index :: "string \<Rightarrow> int option" where
  "array_index s =
     (if s \<noteq> [] \<and> list_all is_digit s \<and> (hd s \<noteq> CHR ''0'' \<or> s = ''0'')
         \<and> digits_value 0 s < 2 ^ 32 - 1
      then Some (digits_value 0 s) else None)"

definition key_before :: "string \<Rightarrow> string \<Rightarrow> bool" where
  "key_before k k' =
     (case array_index k of
        None \<Rightarrow> False
      | Some n \<Rightarrow> (case array_index k' of None \<Rightarrow> True | Some n' \<Rightarrow> n < n'))"

fun update_own :: "string \<Rightarrow> 'v \<Rightarrow> 'v props \<Rightarrow> 'v props" where
  "update_own k v [] = []"
| "update_own k v ((k', v') # ps) =
     (if k' = k then (k, v) # ps else (k', v') # update_own k v ps)"

fun create_own :: "string \<Rightarrow> 'v \<Rightarrow> 'v props \<Rightarrow> 'v props" where
  "create_own k v [] = [(k, v)]"
| "create_own k v ((k', v') # ps) =
     (if key_before k k' then (k, v) # (k', v') # ps else (k', v') # create_own k v ps)"

text \<open>Writing an own data property: an existing one keeps its place, a new one is created.\<close>

definition set_own :: "string \<Rightarrow> 'v \<Rightarrow> 'v props \<Rightarrow> 'v props" where
  "set_own k v ps = (if k \<in> set (map fst ps) then update_own k v ps else create_own k v ps)"

text \<open>
  The property names every ordinary object inherits from \<^verbatim>\<open>Object.prototype\<close>
  (ECMAScript, Annex B included). All are writable data properties, except
  \<^verbatim>\<open>__proto__\<close>, an accessor whose getter returns the object's prototype and whose
  setter replaces it.
\<close>

definition object_prototype_names :: "string list" where
  "object_prototype_names =
     [''constructor'', ''__defineGetter__'', ''__defineSetter__'', ''hasOwnProperty'',
      ''__lookupGetter__'', ''__lookupSetter__'', ''isPrototypeOf'', ''propertyIsEnumerable'',
      ''toString'', ''valueOf'', ''__proto__'', ''toLocaleString'']"


section \<open>Messages and prompt templates\<close>

text \<open>\<^verbatim>\<open>BaseMessage\<close>: the two fields the module reads.\<close>

record BaseMessage =
  role :: string
  "text" :: string

text \<open>
  \<^verbatim>\<open>new PromptTemplate({ variables, template })\<close>: the configuration the module passes,
  the declared variables and the template string.
\<close>

datatype PromptTemplate = PromptTemplate "string list" string

text \<open>The value handed to \<^verbatim>\<open>template.render\<close>: strings, arrays and plain objects.\<close>

datatype View = Str string | Arr "View list" | Obj "(string \<times> View) list"

text \<open>
  Modelled from the spec: what a template string is read into, first tokens (text,
  variable, opening and closing tag), then nodes (text, variable, section with its body).
\<close>

datatype Token = TText string | TVariable string | TOpen string | TClose string

datatype Node = Text string | Variable string | Section string "Node list"

text \<open>
  Modelled from the spec: the tags of the template syntax of \<^verbatim>\<open>PromptTemplate\<close>
  (\<^verbatim>\<open>@/template.js\<close>, not part of the sources at hand). The name in a tag may have
  blanks around it (\<^verbatim>\<open>{{ end }}\<close>); a text between two tags is kept when it is not
  empty.
\<close>

definition trim :: "string \<Rightarrow> string" where
  "trim s = rev (dropWhile (\<lambda>c. c = CHR '' '') (rev (dropWhile (\<lambda>c. c = CHR '' '') s)))"

definition tag_token :: "string \<Rightarrow> Token" where
  "tag_token s =
     (case trim s of
        [] \<Rightarrow> TVariable []
      | c # cs \<Rightarrow>
          if c = CHR ''#'' then TOpen (trim cs)
          else if c = CHR ''/'' then TClose (trim cs)
          else TVariable (c # cs))"

definition text_token :: "string \<Rightarrow> Token list \<Rightarrow> Token list" where
  "text_token acc ts = (if acc = [] then ts else TText (rev acc) # ts)"

text \<open>
  Modelled from the spec: the template syntax of \<^verbatim>\<open>PromptTemplate\<close>
  (\<^verbatim>\<open>@/template.js\<close>, not part of the sources at hand), which the spec describes as
  ``named variables, conditional sections keyed by boolean/array truthiness,
  repeated-section iteration''. A tag is written between \<^verbatim>\<open>{{\<close> and \<^verbatim>\<open>}}\<close>;
  \<^verbatim>\<open>{{#name}}\<close> opens a section, \<^verbatim>\<open>{{/name}}\<close> closes it and \<^verbatim>\<open>{{name}}\<close> is a
  variable. The scanner reads the template character by character; the flag says
  whether it is inside a tag, and the accumulator holds the characters read since the
  last delimiter, in reverse. A tag that is never closed is an error.
\<close>

fun tokenize :: "bool \<Rightarrow> string \<Rightarrow> string \<Rightarrow> Token list option" where
  "tokenize in_tag acc [] = (if in_tag then None else Some (text_token acc []))"
| "tokenize in_tag acc [c] = tokenize in_tag (c # acc) []"
| "tokenize in_tag acc (c # d # cs) =
     (if \<not> in_tag \<and> c = CHR ''{'' \<and> d = CHR ''{''
      then map_option (text_token acc) (tokenize True [] cs)
      else if in_tag \<and> c = CHR ''}'' \<and> d = CHR ''}''
      then map_option ((#) (tag_token (rev acc))) (tokenize False [] cs)
      else tokenize in_tag (c # acc) (d # cs))"

text \<open>
  Modelled from the spec: nesting the tokens into sections. The stack holds the open
  sections, each with the nodes that came before it at its level (in reverse); a closing
  tag must name the innermost open section.
\<close>

fun nest :: "(string \<times> Node list) list \<Rightarrow> Node list \<Rightarrow> Token list \<Rightarrow> Node list option" where
  "nest [] acc [] = Some (rev acc)"
| "nest (open # stack) acc [] = None"
| "nest stack acc (TText s # ts) = nest stack (Text s # acc) ts"
| "nest stack acc (TVariable n # ts) = nest stack (Variable n # acc) ts"
| "nest stack acc (TOpen n # ts) = nest ((n, acc) # stack) [] ts"
| "nest [] acc (TClose n # ts) = None"
| "nest ((m, outer) # stack) acc (TClose n # ts) =
     (if n = m then nest stack (Section n (rev acc) # outer) ts else None)"

text \<open>Modelled from the spec: a template string read into nodes, when it is well formed.\<close>

definition parse :: "string \<Rightarrow> Node list option" where
  "parse s = (case tokenize False [] s of None \<Rightarrow> None | Some ts \<Rightarrow> nest [] [] ts)"

text \<open>
  Modelled from the spec: a name is looked up in the innermost context that is an object
  with that key, then outwards.
\<close>

fun lookup :: "View list \<Rightarrow> string \<Rightarrow> View option" where
  "lookup [] name = None"
| "lookup (Obj ps # ctx) name =
     (case map_of ps name of Some v \<Rightarrow> Some v | None \<Rightarrow> lookup ctx name)"
| "lookup (v # ctx) name = lookup ctx name"

text \<open>\<^verbatim>\<open>Array.prototype.join\<close>.\<close>

fun join :: "string \<Rightarrow> string list \<Rightarrow> string" where
  "join sep [] = []"
| "join sep [x] = x"
| "join sep (x # y # ys) = x @ sep @ join sep (y # ys)"

text \<open>
  Modelled from the spec: the value of a variable written into the output, as JavaScript's
  string conversion gives it (an array is its items joined by commas).
\<close>

fun to_string :: "View \<Rightarrow> string" where
  "to_string (Str s) = s"
| "to_string (Arr vs) = join '','' (map to_string vs)"
| "to_string (Obj ps) = ''[object Object]''"

text \<open>
  Modelled from the spec: rendering one node. A variable that is not found renders as
  nothing. A section is left out when its value is missing, the empty string or the empty
  array; it is rendered once per item of a non-empty array, and once for any other value,
  each time with that value as the innermost context.
\<close>

fun renderNode :: "View list \<Rightarrow> Node \<Rightarrow> string" where
  "renderNode ctx (Text s) = s"
| "renderNode ctx (Variable n) = (case lookup ctx n of None \<Rightarrow> [] | Some v \<Rightarrow> to_string v)"
| "renderNode ctx (Section n body) =
     (case lookup ctx n of
        None \<Rightarrow> []
      | Some (Str s) \<Rightarrow> if s = [] then [] else concat (map (renderNode (Str s # ctx)) body)
      | Some (Arr vs) \<Rightarrow> concat (map (\<lambda>v. concat (map (renderNode (v # ctx)) body)) vs)
      | Some (Obj ps) \<Rightarrow> concat (map (renderNode (Obj ps # ctx)) body))"

text \<open>
  Modelled from the spec: \<^verbatim>\<open>PromptTemplate.render\<close>. The result is \<open>None\<close> when the
  template string is malformed (the renderer throws).
\<close>

fun render :: "PromptTemplate \<Rightarrow> View \<Rightarrow> string option" where
  "render (PromptTemplate variables template) inputs =
     (case parse template of
        None \<Rightarrow> None
      | Some nodes \<Rightarrow> Some (concat (map (renderNode [inputs]) nodes)))"


section \<open>Grouping messages by role\<close>

text \<open>
  The helpers of \<^verbatim>\<open>remeda\<close> on plain objects: \<^verbatim>\<open>pickBy\<close> keeps the entries whose
  value satisfies the predicate, \<^verbatim>\<open>mapValues\<close> maps every value, \<^verbatim>\<open>isDefined\<close> tells
  a value from \<^verbatim>\<open>undefined\<close> (\<open>None\<close>).
\<close>

definition isDefined :: "'a option \<Rightarrow> bool" where
  "isDefined v = (v \<noteq> None)"

definition pickBy :: "'a props \<Rightarrow> ('a \<Rightarrow> bool) \<Rightarrow> 'a props" where
  "pickBy data p = filter (\<lambda>(k, v). p v) data"

definition mapValues :: "'a props \<Rightarrow> ('a \<Rightarrow> 'b) \<Rightarrow> 'b props" where
  "mapValues data f = map (\<lambda>(k, v). (k, f v)) data"

text \<open>
  An object literal with a spread, \<^verbatim>\<open>{ ...base, ...rolesOverride }\<close>: the properties of
  the spread object are written one after the other over the ones before.
\<close>

definition spread :: "'v props \<Rightarrow> 'v props \<Rightarrow> 'v props" where
  "spread base extra = foldl (\<lambda>acc (k, v). set_own k v acc) base extra"

text \<open>
  The constant \<^verbatim>\<open>roles\<close> of \<^verbatim>\<open>messagesToPromptFactory\<close>. Its declared type,
  \<^verbatim>\<open>Record<string, string>\<close>, says that the values \<^verbatim>\<open>pickBy\<close> leaves are
  strings: \<open>defined\<close> unwraps them (and drops no entry after \<^verbatim>\<open>pickBy\<close>).
\<close>

definition defined :: "('a option) props \<Rightarrow> 'a props" where
  "defined data = List.map_filter (\<lambda>(k, v). map_option (Pair k) v) data"

definition roles :: "(string option) props \<Rightarrow> string props" where
  "roles rolesOverride =
     defined
       (pickBy
          (spread
             [(''system'', Some ''system''), (''user'', Some ''user''),
              (''assistant'', Some ''assistant'')]
             rolesOverride)
          isDefined)"

text \<open>
  The function mapped over the messages:
  \<^verbatim>\<open>mapValues(roles, (role) => (message.role === role ? [message.text] : []))\<close>.
\<close>

definition messageBuckets :: "string props \<Rightarrow> BaseMessage \<Rightarrow> (string list) props" where
  "messageBuckets rs message = mapValues rs (\<lambda>r. if role message = r then [text message] else [])"

definition bucketsView :: "(string list) props \<Rightarrow> View" where
  "bucketsView bs = Obj (map (\<lambda>(k, ts). (k, Arr (map Str ts))) bs)"

text \<open>\<^verbatim>\<open>messages.map((message) => mapValues(roles, ...))\<close>: one group of buckets per message.\<close>

definition groupMessages :: "string props \<Rightarrow> BaseMessage list \<Rightarrow> (string list) props list" where
  "groupMessages rs messages = map (\<lambda>message. messageBuckets rs message) messages"

definition messagesToPromptFactory ::
    "(string option) props \<Rightarrow> PromptTemplate \<Rightarrow> BaseMessage list \<Rightarrow> string option" where
  "messagesToPromptFactory rolesOverride template messages =
     render template
       (Obj [(''messages'',
              Arr (map bucketsView (groupMessages (roles rolesOverride) messages)))])"


section \<open>The built-in templates\<close>

text \<open>The interface \<^verbatim>\<open>Template\<close>.\<close>

record Parameters =
  stop_sequence :: "string list"

record Template =
  template :: PromptTemplate
  messagesToPrompt :: "PromptTemplate \<Rightarrow> BaseMessage list \<Rightarrow> string option"
  parameters :: Parameters

definition llama31 :: Template where
  "llama31 =
     \<lparr>template = PromptTemplate [''messages'']
        ''{{#messages}}{{#system}}<|begin_of_text|><|start_header_id|>system<|end_header_id|>\<newline>\<newline>{{system}}<|eot_id|>{{/system}}{{#user}}<|start_header_id|>user<|end_header_id|>\<newline>\<newline>{{user}}<|eot_id|>{{/user}}{{#assistant}}<|start_header_id|>assistant<|end_header_id|>\<newline>\<newline>{{assistant}}<|eot_id|>{{/assistant}}{{#ipython}}<|start_header_id|>ipython<|end_header_id|>\<newline>\<newline>{{ipython}}<|eot_id|>{{/ipython}}{{/messages}}<|start_header_id|>assistant<|end_header_id|>\<newline>'',
      messagesToPrompt = messagesToPromptFactory [(''ipython'', Some ''ipython'')],
      parameters = \<lparr>stop_sequence = [''<|eot_id|>'']\<rparr>\<rparr>"

definition llama3 :: Template where
  "llama3 =
     \<lparr>template = PromptTemplate [''messages'']
        ''{{#messages}}{{#system}}<|begin_of_text|><|start_header_id|>system<|end_header_id|>\<newline>\<newline>{{system}}<|eot_id|>{{/system}}{{#user}}<|start_header_id|>user<|end_header_id|>\<newline>\<newline>{{user}}<|eot_id|>{{/user}}{{#assistant}}<|start_header_id|>assistant<|end_header_id|>\<newline>\<newline>{{assistant}}<|eot_id|>{{/assistant}}{{/messages}}<|start_header_id|>assistant<|end_header_id|>\<newline>'',
      messagesToPrompt = messagesToPromptFactory [],
      parameters = \<lparr>stop_sequence = [''<|eot_id|>'']\<rparr>\<rparr>"

definition qwen2 :: Template where
  "qwen2 =
     \<lparr>template = PromptTemplate [''messages'']
        ''{{#messages}}{{#system}}<|im_start|>system\<newline>{{system}}<|im_end|>\<newline>{{ end }}{{/system}}{{#user}}<|im_start|>user\<newline>{{user}}<|im_end|>\<newline>{{ end }}{{/user}}{{#assistant}}<|im_start|>assistant\<newline>{{assistant}}<|im_end|>\<newline>{{ end }}{{/assistant}}{{/messages}}<|im_start|>assistant\<newline>'',
      messagesToPrompt = messagesToPromptFactory [],
      parameters = \<lparr>stop_sequence = [''<|im_end|>'']\<rparr>\<rparr>"


section \<open>The registry\<close>

text \<open>
  \<^verbatim>\<open>LLMChatTemplates.registry\<close>: its own properties and its prototype. The prototype is
  \<^verbatim>\<open>Object.prototype\<close> (\<open>None\<close>) until an assignment to \<^verbatim>\<open>__proto__\<close> replaces it
  by the assigned template (\<open>Some t\<close>). A template is taken to be a plain object with
  the three properties of the interface, as the ones of the module are; its own prototype
  is \<^verbatim>\<open>Object.prototype\<close>.
\<close>

record Registry =
  own :: "Template props"
  prototype :: "Template option"

definition registry :: Registry where
  "registry =
     \<lparr>own = [(''llama3.1'', llama31), (''llama3'', llama3), (''qwen2'', qwen2)],
      prototype = None\<rparr>"

definition template_names :: "string list" where
  "template_names = [''template'', ''messagesToPrompt'', ''parameters'']"

text \<open>What reading a property of the registry can give.\<close>

datatype JSValue =
    VTemplate Template
  | VPromptTemplate PromptTemplate
  | VMessagesToPrompt "PromptTemplate \<Rightarrow> BaseMessage list \<Rightarrow> string option"
  | VParameters Parameters
  | VObjectPrototype
  | VNative string
  | VUndefined

text \<open>\<^verbatim>\<open>Object.keys(this.registry)\<close>: the own enumerable property names.\<close>

definition Object_keys :: "Registry \<Rightarrow> string list" where
  "Object_keys reg = map fst (own reg)"

text \<open>The names the registry inherits through its prototype chain.\<close>

definition inherited :: "Registry \<Rightarrow> string \<Rightarrow> bool" where
  "inherited reg k =
     ((case prototype reg of None \<Rightarrow> False | Some t \<Rightarrow> k \<in> set template_names)
      \<or> k \<in> set object_prototype_names)"

text \<open>\<^verbatim>\<open>model in this.registry\<close>: an own property or an inherited one.\<close>

definition in_registry :: "string \<Rightarrow> Registry \<Rightarrow> bool" where
  "in_registry model reg = (model \<in> set (Object_keys reg) \<or> inherited reg model)"

definition object_prototype_get :: "Registry \<Rightarrow> string \<Rightarrow> JSValue" where
  "object_prototype_get reg k =
     (if k = ''__proto__''
      then (case prototype reg of None \<Rightarrow> VObjectPrototype | Some t \<Rightarrow> VTemplate t)
      else if k \<in> set object_prototype_names then VNative k
      else VUndefined)"

text \<open>\<^verbatim>\<open>this.registry[model]\<close>, read: the own property first, then the prototype chain.\<close>

definition get_property :: "Registry \<Rightarrow> string \<Rightarrow> JSValue" where
  "get_property reg k =
     (case map_of (own reg) k of
        Some t \<Rightarrow> VTemplate t
      | None \<Rightarrow>
          (case prototype reg of
             None \<Rightarrow> object_prototype_get reg k
           | Some p \<Rightarrow>
               if k = ''template'' then VPromptTemplate (template p)
               else if k = ''messagesToPrompt'' then VMessagesToPrompt (messagesToPrompt p)
               else if k = ''parameters'' then VParameters (parameters p)
               else object_prototype_get reg k))"

text \<open>
  \<^verbatim>\<open>this.registry[model] = template\<close>: an own property is overwritten; otherwise the
  inherited setter of \<^verbatim>\<open>__proto__\<close> replaces the prototype, and any other name becomes
  a new own property.
\<close>

definition set_property :: "Registry \<Rightarrow> string \<Rightarrow> Template \<Rightarrow> Registry" where
  "set_property reg k t =
     (if k \<in> set (Object_keys reg) then reg\<lparr>own := update_own k t (own reg)\<rparr>
      else if k = ''__proto__'' then reg\<lparr>prototype := Some t\<rparr>
      else reg\<lparr>own := create_own k t (own reg)\<rparr>)"

text \<open>
  \<^verbatim>\<open>new ValueError(message, [], { context: { validModels } })\<close>: the message and, when
  given, the list of valid models.
\<close>

datatype ValueError = ValueError string "string list option"

definition already_exists :: "string \<Rightarrow> string" where
  "already_exists model =
     ''Template for model '' @ [CHR 0x27] @ model @ [CHR 0x27] @ '' already exists!''"

definition not_found :: "string \<Rightarrow> string" where
  "not_found model =
     ''Template for model '' @ [CHR 0x27] @ model @ [CHR 0x27] @ '' not found!''"

text \<open>
  \<^verbatim>\<open>register\<close>, \<^verbatim>\<open>has\<close> and \<^verbatim>\<open>get\<close> of \<^verbatim>\<open>LLMChatTemplates\<close>, the registry being
  passed in. \<^verbatim>\<open>register\<close> returns what the call did (it threw, or returned) together
  with the registry it left behind.
\<close>

definition register ::
    "Registry \<Rightarrow> string \<Rightarrow> Template \<Rightarrow> bool \<Rightarrow> (ValueError + unit) \<times> Registry" where
  "register reg model t override =
     (if in_registry model reg \<and> \<not> override
      then (Inl (ValueError (already_exists model) None), reg)
      else (Inr (), set_property reg model t))"

definition has :: "Registry \<Rightarrow> string \<Rightarrow> bool" where
  "has reg model = (model \<noteq> [] \<and> in_registry model reg)"

definition get :: "Registry \<Rightarrow> string \<Rightarrow> ValueError + JSValue" where
  "get reg model =
     (if \<not> has reg model
      then Inl (ValueError (not_found model) (Some (Object_keys reg)))
      else Inr (get_property reg model))"


section \<open>Instrumentation flags\<close>

text \<open>\<^verbatim>\<open>String.prototype.split\<close> with a one-character separator.\<close>

fun split_on :: "char \<Rightarrow> string \<Rightarrow> string list" where
  "split_on sep [] = [[]]"
| "split_on sep (c # cs) =
     (if c = sep then [] # split_on sep cs
      else (case split_on sep cs of [] \<Rightarrow> [[c]] | x # xs \<Rightarrow> (c # x) # xs))"

text \<open>
  Modelled from the spec: \<^verbatim>\<open>parseEnv\<close> of \<^verbatim>\<open>@/internals/env.js\<close> (not part of the
  sources at hand) with the schema \<^verbatim>\<open>z.string()\<close>: the value of the environment
  variable, or the default when the variable is not set.
\<close>

definition parseEnv :: "(string \<rightharpoonup> string) \<Rightarrow> string \<Rightarrow> string \<Rightarrow> string" where
  "parseEnv env key defaultValue = (case env key of None \<Rightarrow> defaultValue | Some v \<Rightarrow> v)"

definition INSTRUMENTATION_IGNORED_KEYS :: "(string \<rightharpoonup> string) \<Rightarrow> string list" where
  "INSTRUMENTATION_IGNORED_KEYS env =
     filter (\<lambda>item. length item > 0)
       (split_on CHR '','' (parseEnv env ''BEE_FRAMEWORK_INSTRUMENTATION_IGNORED_KEYS'' ''''))"


section \<open>Own properties: lookup and keys after a write\<close>

lemma fst_in: "(a, b) \<in> set ps \<Longrightarrow> a \<in> fst ` set ps"
  by force

lemma map_fst_update_own: "map fst (update_own k v ps) = map fst ps"
  by (induction ps) auto

lemma keys_update_own: "fst ` set (update_own k v ps) = fst ` set ps"
  using arg_cong [OF map_fst_update_own, of set k v ps] by simp

lemma map_of_update_own:
  "map_of (update_own k v ps) k'
     = (if k' = k \<and> k \<in> fst ` set ps then Some v else map_of ps k')"
proof (induction ps)
  case Nil
  then show ?case by simp
next
  case (Cons p ps)
  obtain a b where p: "p = (a, b)" by (cases p)
  show ?case using Cons by (auto simp: p fst_in)
qed

lemma keys_create_own: "fst ` set (create_own k v ps) = insert k (fst ` set ps)"
proof (induction ps)
  case Nil
  then show ?case by simp
next
  case (Cons p ps)
  obtain a b where p: "p = (a, b)" by (cases p)
  show ?case using Cons by (cases "key_before k a") (simp_all add: p insert_commute)
qed

lemma map_of_create_own:
  "k \<notin> fst ` set ps \<Longrightarrow>
     map_of (create_own k v ps) k' = (if k' = k then Some v else map_of ps k')"
proof (induction ps)
  case Nil
  then show ?case by simp
next
  case (Cons p ps)
  obtain a b where p: "p = (a, b)" by (cases p)
  show ?case using Cons by (cases "key_before k a") (auto simp: p)
qed

lemma own_key: "map_of (own reg) model = Some t \<Longrightarrow> model \<in> set (Object_keys reg)"
  by (force simp: Object_keys_def dest: map_of_SomeD)

lemma proto_inherited: "inherited reg ''__proto__''"
  by (simp add: inherited_def object_prototype_names_def)

lemma empty_not_inherited: "\<not> inherited reg []"
  by (simp add: inherited_def object_prototype_names_def template_names_def split: option.splits)

lemma register_fresh:
  assumes "register reg x t False = (Inr (), reg1)"
  shows "x \<notin> set (Object_keys reg)" and "\<not> inherited reg x"
    and "reg1 = reg\<lparr>own := create_own x t (own reg)\<rparr>"
proof -
  from assms have n: "\<not> in_registry x reg" and r: "reg1 = set_property reg x t"
    by (auto simp: register_def split: if_splits)
  from n show k: "x \<notin> set (Object_keys reg)" and i: "\<not> inherited reg x"
    by (auto simp: in_registry_def)
  from i have "x \<noteq> ''__proto__''" using proto_inherited by blast
  with k r show "reg1 = reg\<lparr>own := create_own x t (own reg)\<rparr>"
    by (simp add: set_property_def)
qed

lemma get_own:
  assumes "model \<noteq> []" and "map_of (own reg) model = Some t"
  shows "get reg model = Inr (VTemplate t)"
  using assms own_key [OF assms(2)]
  by (simp add: get_def has_def in_registry_def get_property_def)

text \<open>
  Away from the inherited names the three operations work on the own properties alone.
\<close>

lemma has_not_inherited:
  "\<not> inherited reg m \<Longrightarrow> has reg m = (m \<noteq> [] \<and> m \<in> set (Object_keys reg))"
  by (simp add: has_def in_registry_def)

lemma register_not_inherited:
  assumes "\<not> inherited reg m"
  shows "register reg m t override =
     (if m \<in> set (Object_keys reg) \<and> \<not> override
      then (Inl (ValueError (already_exists m) None), reg)
      else (Inr (), reg\<lparr>own := set_own m t (own reg)\<rparr>))"
    and "map_of (set_own m t (own reg)) k = (if k = m then Some t else map_of (own reg) k)"
proof -
  have p: "m \<noteq> ''__proto__''" using assms proto_inherited by blast
  show "register reg m t override =
     (if m \<in> set (Object_keys reg) \<and> \<not> override
      then (Inl (ValueError (already_exists m) None), reg)
      else (Inr (), reg\<lparr>own := set_own m t (own reg)\<rparr>))"
    using assms p
    by (simp add: register_def in_registry_def set_property_def set_own_def Object_keys_def)
  show "map_of (set_own m t (own reg)) k = (if k = m then Some t else map_of (own reg) k)"
    by (simp add: set_own_def map_of_update_own map_of_create_own)
qed

text \<open>
  An assignment to \<^verbatim>\<open>__proto__\<close>, which only a call with override reaches, creates no
  property: it makes the template the prototype of the registry.
\<close>

lemma register_proto_override:
  "''__proto__'' \<notin> set (Object_keys reg) \<Longrightarrow>
     register reg ''__proto__'' t True = (Inr (), reg\<lparr>prototype := Some t\<rparr>)"
  by (simp add: register_def set_property_def)

lemma registry_keys: "Object_keys registry = [''llama3.1'', ''llama3'', ''qwen2'']"
  by (simp add: Object_keys_def registry_def)

lemma registry_prototype: "prototype registry = None"
  by (simp add: registry_def)

lemma toString_inherited: "inherited reg ''toString''"
  by (simp add: inherited_def object_prototype_names_def)


section \<open>Grouping and rendering: what a message contributes\<close>

lemma map_of_mapValues: "map_of (mapValues rs f) b = map_option f (map_of rs b)"
  by (simp add: mapValues_def map_of_map)

lemma map_of_messageBuckets:
  "map_of (messageBuckets rs m) b
     = map_option (\<lambda>r. if role m = r then [text m] else []) (map_of rs b)"
  by (simp add: messageBuckets_def map_of_mapValues)

lemma bucket_lookup:
  "lookup (bucketsView bs # ctx) b =
     (case map_of bs b of None \<Rightarrow> lookup ctx b | Some ts \<Rightarrow> Some (Arr (map Str ts)))"
  by (simp add: bucketsView_def map_of_map split: option.splits)

lemma section_of_bucket:
  "map_of rs b = Some r \<Longrightarrow>
   renderNode (bucketsView (messageBuckets rs m) # ctx) (Section b body) =
     (if role m = r
      then concat (map (renderNode (Str (text m) # bucketsView (messageBuckets rs m) # ctx)) body)
      else [])"
  by (simp add: bucket_lookup map_of_messageBuckets)

lemma variable_of_bucket:
  "map_of rs b = Some r \<Longrightarrow> role m = r \<Longrightarrow>
   renderNode (Str s # bucketsView (messageBuckets rs m) # ctx) (Variable b) = text m"
  by (simp add: bucket_lookup map_of_messageBuckets)

lemma roles_default:
  "roles [] = [(''system'', ''system''), (''user'', ''user''), (''assistant'', ''assistant'')]"
  by (simp add: roles_def spread_def pickBy_def defined_def isDefined_def List.map_filter_def)

lemma parse_llama3:
  "(case template llama3 of PromptTemplate variables s \<Rightarrow> parse s) =
     Some [Section ''messages''
             [Section ''system''
                [Text ''<|begin_of_text|><|start_header_id|>system<|end_header_id|>\<newline>\<newline>'',
                 Variable ''system'', Text ''<|eot_id|>''],
              Section ''user''
                [Text ''<|start_header_id|>user<|end_header_id|>\<newline>\<newline>'',
                 Variable ''user'', Text ''<|eot_id|>''],
              Section ''assistant''
                [Text ''<|start_header_id|>assistant<|end_header_id|>\<newline>\<newline>'',
                 Variable ''assistant'', Text ''<|eot_id|>'']],
           Text ''<|start_header_id|>assistant<|end_header_id|>\<newline>'']"
  by code_simp

lemma render_parsed:
  "(case t of PromptTemplate variables s \<Rightarrow> parse s) = Some nodes \<Longrightarrow>
     render t v = Some (concat (map (renderNode [v]) nodes))"
  by (cases t) simp

lemma turn_section:
  assumes "map_of rs b = Some b"
  shows "renderNode (bucketsView (messageBuckets rs m) # ctx)
           (Section b [Text h, Variable b, Text e])
         = (if role m = b then h @ text m @ e else [])"
proof (cases "role m = b")
  case True
  have v: "renderNode (Str (text m) # bucketsView (messageBuckets rs m) # ctx) (Variable b) = text m"
    using assms True by (rule variable_of_bucket)
  show ?thesis
    unfolding section_of_bucket [OF assms] using True
    by (simp only: list.map concat.simps v renderNode.simps(1) if_True append_Nil2)
next
  case False
  then show ?thesis unfolding section_of_bucket [OF assms] by simp
qed

lemma render_messages:
  "renderNode [Obj [(''messages'', Arr vs)]] (Section ''messages'' body)
     = concat (map (\<lambda>v. concat (map (renderNode [v, Obj [(''messages'', Arr vs)]]) body)) vs)"
  by simp

lemma llama3_messages:
  "messagesToPrompt llama3 (template llama3) ms =
     Some (concat (map (\<lambda>m.
        (if role m = ''system''
         then ''<|begin_of_text|><|start_header_id|>system<|end_header_id|>\<newline>\<newline>'' @ text m @ ''<|eot_id|>''
         else [])
        @ (if role m = ''user''
           then ''<|start_header_id|>user<|end_header_id|>\<newline>\<newline>'' @ text m @ ''<|eot_id|>''
           else [])
        @ (if role m = ''assistant''
           then ''<|start_header_id|>assistant<|end_header_id|>\<newline>\<newline>'' @ text m @ ''<|eot_id|>''
           else [])) ms)
       @ ''<|start_header_id|>assistant<|end_header_id|>\<newline>'')"
proof -
  have f: "messagesToPrompt llama3 = messagesToPromptFactory []"
    by (simp add: llama3_def)
  have r: "map_of (roles []) ''system'' = Some ''system''"
    "map_of (roles []) ''user'' = Some ''user''"
    "map_of (roles []) ''assistant'' = Some ''assistant''"
    by (simp_all add: roles_default)
  show ?thesis
    unfolding f messagesToPromptFactory_def render_parsed [OF parse_llama3] groupMessages_def
    by (simp only: list.map concat.simps render_messages turn_section [OF r(1)]
        turn_section [OF r(2)] turn_section [OF r(3)] renderNode.simps(1) map_map comp_def
        append_Nil2 append_assoc)
qed

lemma roles_ipython:
  "roles [(''ipython'', Some ''ipython'')]
     = [(''system'', ''system''), (''user'', ''user''), (''assistant'', ''assistant''),
        (''ipython'', ''ipython'')]"
proof -
  have "array_index ''ipython'' = None"
    by (simp add: array_index_def is_digit_def)
  then have "\<And>k. \<not> key_before ''ipython'' k"
    by (simp add: key_before_def)
  then show ?thesis
    by (simp add: roles_def spread_def pickBy_def defined_def isDefined_def List.map_filter_def
        set_own_def)
qed

lemma parse_llama31:
  "(case template llama31 of PromptTemplate variables s \<Rightarrow> parse s) =
     Some [Section ''messages''
             [Section ''system''
                [Text ''<|begin_of_text|><|start_header_id|>system<|end_header_id|>\<newline>\<newline>'',
                 Variable ''system'', Text ''<|eot_id|>''],
              Section ''user''
                [Text ''<|start_header_id|>user<|end_header_id|>\<newline>\<newline>'',
                 Variable ''user'', Text ''<|eot_id|>''],
              Section ''assistant''
                [Text ''<|start_header_id|>assistant<|end_header_id|>\<newline>\<newline>'',
                 Variable ''assistant'', Text ''<|eot_id|>''],
              Section ''ipython''
                [Text ''<|start_header_id|>ipython<|end_header_id|>\<newline>\<newline>'',
                 Variable ''ipython'', Text ''<|eot_id|>'']],
           Text ''<|start_header_id|>assistant<|end_header_id|>\<newline>'']"
  by code_simp

lemma parse_qwen2:
  "(case template qwen2 of PromptTemplate variables s \<Rightarrow> parse s) =
     Some [Section ''messages''
             [Section ''system''
                [Text ''<|im_start|>system\<newline>'', Variable ''system'',
                 Text ''<|im_end|>\<newline>'', Variable ''end''],
              Section ''user''
                [Text ''<|im_start|>user\<newline>'', Variable ''user'',
                 Text ''<|im_end|>\<newline>'', Variable ''end''],
              Section ''assistant''
                [Text ''<|im_start|>assistant\<newline>'', Variable ''assistant'',
                 Text ''<|im_end|>\<newline>'', Variable ''end'']],
           Text ''<|im_start|>assistant\<newline>'']"
  by code_simp

lemma llama31_messages:
  "messagesToPrompt llama31 (template llama31) ms =
     Some (concat (map (\<lambda>m.
        (if role m = ''system''
         then ''<|begin_of_text|><|start_header_id|>system<|end_header_id|>\<newline>\<newline>'' @ text m @ ''<|eot_id|>''
         else [])
        @ (if role m = ''user''
           then ''<|start_header_id|>user<|end_header_id|>\<newline>\<newline>'' @ text m @ ''<|eot_id|>''
           else [])
        @ (if role m = ''assistant''
           then ''<|start_header_id|>assistant<|end_header_id|>\<newline>\<newline>'' @ text m @ ''<|eot_id|>''
           else [])
        @ (if role m = ''ipython''
           then ''<|start_header_id|>ipython<|end_header_id|>\<newline>\<newline>'' @ text m @ ''<|eot_id|>''
           else [])) ms)
       @ ''<|start_header_id|>assistant<|end_header_id|>\<newline>'')"
proof -
  have f: "messagesToPrompt llama31 = messagesToPromptFactory [(''ipython'', Some ''ipython'')]"
    by (simp add: llama31_def)
  have r: "map_of (roles [(''ipython'', Some ''ipython'')]) ''system'' = Some ''system''"
    "map_of (roles [(''ipython'', Some ''ipython'')]) ''user'' = Some ''user''"
    "map_of (roles [(''ipython'', Some ''ipython'')]) ''assistant'' = Some ''assistant''"
    "map_of (roles [(''ipython'', Some ''ipython'')]) ''ipython'' = Some ''ipython''"
    by (simp_all add: roles_ipython)
  show ?thesis
    unfolding f messagesToPromptFactory_def render_parsed [OF parse_llama31] groupMessages_def
    by (simp only: list.map concat.simps render_messages turn_section [OF r(1)]
        turn_section [OF r(2)] turn_section [OF r(3)] turn_section [OF r(4)]
        renderNode.simps(1) map_map comp_def append_Nil2 append_assoc)
qed

lemma qwen2_end:
  "renderNode [Str s, bucketsView (messageBuckets (roles []) m), Obj [(''messages'', v)]]
     (Variable ''end'') = []"
  by (simp add: bucket_lookup map_of_messageBuckets roles_default)

lemma qwen2_turn_section:
  assumes "map_of (roles []) b = Some b"
  shows "renderNode [bucketsView (messageBuckets (roles []) m), Obj [(''messages'', v)]]
           (Section b [Text h, Variable b, Text e, Variable ''end''])
         = (if role m = b then h @ text m @ e else [])"
proof (cases "role m = b")
  case True
  have v: "renderNode [Str (text m), bucketsView (messageBuckets (roles []) m),
      Obj [(''messages'', v)]] (Variable b) = text m"
    using assms True by (rule variable_of_bucket)
  show ?thesis
    unfolding section_of_bucket [OF assms] using True
    by (simp only: list.map concat.simps v qwen2_end renderNode.simps(1) if_True append_Nil2)
next
  case False
  then show ?thesis unfolding section_of_bucket [OF assms] by simp
qed

lemma qwen2_messages:
  "messagesToPrompt qwen2 (template qwen2) ms =
     Some (concat (map (\<lambda>m.
        (if role m = ''system''
         then ''<|im_start|>system\<newline>'' @ text m @ ''<|im_end|>\<newline>'' else [])
        @ (if role m = ''user''
           then ''<|im_start|>user\<newline>'' @ text m @ ''<|im_end|>\<newline>'' else [])
        @ (if role m = ''assistant''
           then ''<|im_start|>assistant\<newline>'' @ text m @ ''<|im_end|>\<newline>'' else [])) ms)
       @ ''<|im_start|>assistant\<newline>'')"
proof -
  have f: "messagesToPrompt qwen2 = messagesToPromptFactory []"
    by (simp add: qwen2_def)
  have r: "map_of (roles []) ''system'' = Some ''system''"
    "map_of (roles []) ''user'' = Some ''user''"
    "map_of (roles []) ''assistant'' = Some ''assistant''"
    by (simp_all add: roles_default)
  show ?thesis
    unfolding f messagesToPromptFactory_def render_parsed [OF parse_qwen2] groupMessages_def
    by (simp only: list.map concat.simps render_messages qwen2_turn_section [OF r(1)]
        qwen2_turn_section [OF r(2)] qwen2_turn_section [OF r(3)]
        renderNode.simps(1) map_map comp_def append_Nil2 append_assoc)
qed

lemma unrecognized_dropped:
  assumes "\<And>ms. render_all ms = Some (concat (map turn ms) @ tail)" and "turn m = []"
  shows "render_all (xs @ m # ys) = render_all (xs @ ys)"
  by (simp add: assms)

lemma empty_buckets:
  assumes "role m \<notin> snd ` set rs"
  shows "snd ` set (messageBuckets rs m) \<subseteq> {[]}"
proof -
  have "\<And>k r. (k, r) \<in> set rs \<Longrightarrow> role m \<noteq> r"
    using assms by force
  then show ?thesis
    by (auto simp: messageBuckets_def mapValues_def)
qed

lemma empty_section:
  assumes "role m \<notin> snd ` set rs" and "b \<in> fst ` set rs"
  shows "renderNode (bucketsView (messageBuckets rs m) # ctx) (Section b body) = []"
proof -
  from assms(2) obtain r where r: "map_of rs b = Some r"
    by (metis domD dom_map_of_conv_image_fst)
  then have "(b, r) \<in> set rs" by (rule map_of_SomeD)
  then have "role m \<noteq> r" using assms(1) by force
  then show ?thesis unfolding section_of_bucket [OF r] by simp
qed

lemma group_nth:
  assumes "i < length ms"
  shows "map_of (groupMessages rs ms ! i) b
    = map_option (\<lambda>r. if role (ms ! i) = r then [text (ms ! i)] else []) (map_of rs b)"
  using assms by (simp add: groupMessages_def map_of_messageBuckets)

lemma roles_human:
  "roles [(''user'', Some ''human'')]
     = [(''system'', ''system''), (''user'', ''human''), (''assistant'', ''assistant'')]"
  by (simp add: roles_def spread_def pickBy_def defined_def isDefined_def List.map_filter_def
      set_own_def)

lemma empty_view:
  assumes "role m \<notin> snd ` set rs"
  shows "bucketsView (messageBuckets rs m) = Obj (map (\<lambda>(k, r). (k, Arr [])) rs)"
proof -
  have "\<And>k r. (k, r) \<in> set rs \<Longrightarrow> role m \<noteq> r"
    using assms by force
  then show ?thesis
    by (auto simp: bucketsView_def messageBuckets_def mapValues_def)
qed

text \<open>
  With the renderer as modelled, a message whose role is none of the mapped roles leaves
  no trace in the output: a bucket section renders nothing for it, and each built-in
  template gives the output it gives without the message.
\<close>

lemma unrecognized_message_not_rendered:
  "(role m \<notin> snd ` set (roles ov) \<longrightarrow> b \<in> fst ` set (roles ov) \<longrightarrow>
      renderNode (bucketsView (messageBuckets (roles ov) m) # ctx) (Section b body) = [])
   \<and> (role m \<notin> {''system'', ''user'', ''assistant''} \<longrightarrow>
        messagesToPrompt llama3 (template llama3) (xs @ m # ys)
          = messagesToPrompt llama3 (template llama3) (xs @ ys)
        \<and> messagesToPrompt qwen2 (template qwen2) (xs @ m # ys)
          = messagesToPrompt qwen2 (template qwen2) (xs @ ys))
   \<and> (role m \<notin> {''system'', ''user'', ''assistant'', ''ipython''} \<longrightarrow>
        messagesToPrompt llama31 (template llama31) (xs @ m # ys)
          = messagesToPrompt llama31 (template llama31) (xs @ ys))"
proof (intro conjI impI)
  assume "role m \<notin> snd ` set (roles ov)" and "b \<in> fst ` set (roles ov)"
  then show "renderNode (bucketsView (messageBuckets (roles ov) m) # ctx) (Section b body) = []"
    by (rule empty_section)
next
  assume "role m \<notin> {''system'', ''user'', ''assistant''}"
  then show "messagesToPrompt llama3 (template llama3) (xs @ m # ys)
      = messagesToPrompt llama3 (template llama3) (xs @ ys)"
    by (intro unrecognized_dropped [OF llama3_messages]) simp
next
  assume "role m \<notin> {''system'', ''user'', ''assistant''}"
  then show "messagesToPrompt qwen2 (template qwen2) (xs @ m # ys)
      = messagesToPrompt qwen2 (template qwen2) (xs @ ys)"
    by (intro unrecognized_dropped [OF qwen2_messages]) simp
next
  assume "role m \<notin> {''system'', ''user'', ''assistant'', ''ipython''}"
  then show "messagesToPrompt llama31 (template llama31) (xs @ m # ys)
      = messagesToPrompt llama31 (template llama31) (xs @ ys)"
    by (intro unrecognized_dropped [OF llama31_messages]) simp
qed


section \<open>Splitting on a separator\<close>

lemma split_on_not_Nil: "split_on c s \<noteq> []"
  by (induction s) (auto split: list.splits)

lemma join_Cons: "join sep ((x # y) # ys) = x # join sep (y # ys)"
  by (cases ys) simp_all

lemma join_split_on: "join [c] (split_on c s) = s"
proof (induction s)
  case Nil
  then show ?case by simp
next
  case (Cons x s)
  obtain y ys where y: "split_on c s = y # ys"
    using split_on_not_Nil [of c s] by (cases "split_on c s") auto
  have e: "join [c] ([] # y # ys) = c # join [c] (y # ys)" by simp
  show ?case using Cons by (simp add: y join_Cons e del: join.simps)
qed

lemma split_on_no_sep: "x \<in> set (split_on c s) \<Longrightarrow> c \<notin> set x"
  by (induction s arbitrary: x) (auto split: list.splits if_splits)


section \<open>Properties of the module\<close>

text \<open>
  C1. \<^verbatim>\<open>register(m, t, override)\<close> is meant to throw exactly when \<open>m\<close> is already a key of
  the registry and \<open>override\<close> is false, and to insert \<open>t\<close> under \<open>m\<close> otherwise. The test
  \<^verbatim>\<open>model in this.registry\<close> also holds for the names the registry inherits from
  \<^verbatim>\<open>Object.prototype\<close>: on the initial registry, \<^verbatim>\<open>toString\<close> is not among the keys
  \<^verbatim>\<open>Object.keys\<close> lists, and yet registering it without override throws the
  ``already exists'' error and inserts nothing.
\<close>

theorem register_inherited_name_conflict:
  "''toString'' \<notin> set (Object_keys registry)
   \<and> register registry ''toString'' t False
       = (Inl (ValueError (already_exists ''toString'') None), registry)"
  by (simp add: registry_keys register_def in_registry_def toString_inherited)

text \<open>
  C2, as stated, fails for the empty name: once a template is registered under the empty
  string, the empty string is a registered key, and \<^verbatim>\<open>get\<close> still throws the
  ``not found'' error for it.
\<close>

theorem get_empty_key_counterexample:
  "[] \<in> set (Object_keys (snd (register registry [] qwen2 False)))
   \<and> map_of (own (snd (register registry [] qwen2 False))) [] = Some qwen2
   \<and> get (snd (register registry [] qwen2 False)) []
       = Inl (ValueError (not_found []) (Some [''llama3.1'', ''llama3'', ''qwen2'', []]))"
  by (simp add: register_def in_registry_def empty_not_inherited registry_keys
      set_property_def get_def has_def)
     (simp add: registry_def Object_keys_def key_before_def array_index_def)

text \<open>
  C2, amended. For every model name \<open>m\<close>: \<^verbatim>\<open>get(m)\<close> returns the registered template when
  \<open>m\<close> is a non-empty registered key; it throws the ``not found'' error, whose context
  carries the list of all registered model names, when \<open>m\<close> is empty, or when \<open>m\<close> is
  neither a registered key nor a name the registry inherits from its prototype.
\<close>

theorem get_registered_or_not_found:
  "(model \<noteq> [] \<and> map_of (own reg) model = Some t \<longrightarrow> get reg model = Inr (VTemplate t))
   \<and> (model = [] \<or> (model \<notin> set (Object_keys reg) \<and> \<not> inherited reg model) \<longrightarrow>
        get reg model = Inl (ValueError (not_found model) (Some (Object_keys reg))))"
proof (intro conjI impI)
  assume "model \<noteq> [] \<and> map_of (own reg) model = Some t"
  then show "get reg model = Inr (VTemplate t)" by (simp add: get_own)
next
  assume "model = [] \<or> (model \<notin> set (Object_keys reg) \<and> \<not> inherited reg model)"
  then have "\<not> has reg model" by (auto simp: has_def in_registry_def)
  then show "get reg model = Inl (ValueError (not_found model) (Some (Object_keys reg)))"
    by (simp add: get_def)
qed

theorem get_registered_or_not_found_witness:
  "get registry ''llama3'' = Inr (VTemplate llama3)
   \<and> get registry ''unknown-model''
       = Inl (ValueError (not_found ''unknown-model'') (Some [''llama3.1'', ''llama3'', ''qwen2'']))"
proof -
  have a: "''llama3'' \<noteq> [] \<and> map_of (own registry) ''llama3'' = Some llama3"
    by (simp add: registry_def)
  have b: "''unknown-model'' = [] \<or> (''unknown-model'' \<notin> set (Object_keys registry)
      \<and> \<not> inherited registry ''unknown-model'')"
    by (simp add: registry_keys inherited_def registry_prototype object_prototype_names_def)
  show ?thesis
    using a b get_registered_or_not_found [of "''llama3''" registry llama3]
      get_registered_or_not_found [of "''unknown-model''" registry]
    by (simp add: registry_keys)
qed

text \<open>
  C3. For every non-empty model name \<open>x\<close> and templates \<open>t\<close>, \<open>t2\<close>: after
  \<^verbatim>\<open>register(x, t)\<close> has succeeded, \<^verbatim>\<open>get(x)\<close> returns \<open>t\<close>; a further
  \<^verbatim>\<open>register(x, t2)\<close> without override throws the ``already exists'' error and leaves
  the registry as it was; \<^verbatim>\<open>register(x, t2, true)\<close> succeeds, and afterwards
  \<^verbatim>\<open>get(x)\<close> returns \<open>t2\<close>.
\<close>

theorem register_then_get:
  assumes "x \<noteq> []" and "register reg x t False = (Inr (), reg1)"
  shows "get reg1 x = Inr (VTemplate t)
       \<and> register reg1 x t2 False = (Inl (ValueError (already_exists x) None), reg1)
       \<and> fst (register reg1 x t2 True) = Inr ()
       \<and> get (snd (register reg1 x t2 True)) x = Inr (VTemplate t2)"
proof -
  note f = register_fresh [OF assms(2)]
  have k: "x \<notin> fst ` set (own reg)" using f(1) by (simp add: Object_keys_def)
  have m1: "map_of (own reg1) x = Some t"
    using k by (simp add: f(3) map_of_create_own)
  have k1: "x \<in> set (Object_keys reg1)"
    by (simp add: f(3) Object_keys_def keys_create_own)
  have g1: "get reg1 x = Inr (VTemplate t)"
    using assms(1) m1 by (rule get_own)
  have r1: "register reg1 x t2 False = (Inl (ValueError (already_exists x) None), reg1)"
    using k1 by (simp add: register_def in_registry_def)
  have r2: "register reg1 x t2 True = (Inr (), reg1\<lparr>own := update_own x t2 (own reg1)\<rparr>)"
    using k1 by (simp add: register_def set_property_def)
  have m2: "map_of (own (reg1\<lparr>own := update_own x t2 (own reg1)\<rparr>)) x = Some t2"
    using k1 by (simp add: Object_keys_def map_of_update_own)
  have g2: "get (snd (register reg1 x t2 True)) x = Inr (VTemplate t2)"
    unfolding r2 snd_conv using assms(1) m2 by (rule get_own)
  show ?thesis using g1 r1 r2 g2 by simp
qed

theorem register_then_get_witness:
  "get (snd (register registry ''x'' qwen2 False)) ''x'' = Inr (VTemplate qwen2)
   \<and> fst (register (snd (register registry ''x'' qwen2 False)) ''x'' llama3 False)
       = Inl (ValueError (already_exists ''x'') None)
   \<and> get (snd (register (snd (register registry ''x'' qwen2 False)) ''x'' llama3 True)) ''x''
       = Inr (VTemplate llama3)"
proof -
  have r: "register registry ''x'' qwen2 False
      = (Inr (), snd (register registry ''x'' qwen2 False))"
    by (simp add: register_def in_registry_def inherited_def registry_def Object_keys_def
        object_prototype_names_def)
  have n: "''x'' \<noteq> []" by simp
  show ?thesis using register_then_get [OF n r, of llama3] by simp
qed

text \<open>
  C4. \<^verbatim>\<open>has(m)\<close> is meant to hold exactly for the non-empty keys of the registry (the
  built-in names and the registered ones). It also holds for the names inherited from
  \<^verbatim>\<open>Object.prototype\<close>: on the initial registry \<^verbatim>\<open>has("toString")\<close> is true, and
  \<^verbatim>\<open>toString\<close> is none of the registry's keys; \<^verbatim>\<open>get("toString")\<close> then returns the
  inherited function, which is no template.
\<close>

theorem has_inherited_name:
  "has registry ''toString'' \<and> ''toString'' \<notin> set (Object_keys registry)
   \<and> get registry ''toString'' = Inr (VNative ''toString'')"
proof -
  have h: "has registry ''toString''"
    by (simp add: has_def in_registry_def toString_inherited)
  have g: "get_property registry ''toString'' = VNative ''toString''"
    by (simp add: get_property_def registry_def object_prototype_get_def
        object_prototype_names_def)
  show ?thesis using h g by (simp add: registry_keys get_def)
qed

text \<open>
  C5. For each of the built-in model names \<^verbatim>\<open>llama3.1\<close>, \<^verbatim>\<open>llama3\<close> and \<^verbatim>\<open>qwen2\<close>,
  \<^verbatim>\<open>has(name)\<close> is true and \<^verbatim>\<open>get(name)\<close> returns a template whose list of stop
  sequences is not empty.
\<close>

theorem builtin_templates:
  "has registry ''llama3.1'' \<and> get registry ''llama3.1'' = Inr (VTemplate llama31)
     \<and> stop_sequence (parameters llama31) \<noteq> []
   \<and> has registry ''llama3'' \<and> get registry ''llama3'' = Inr (VTemplate llama3)
     \<and> stop_sequence (parameters llama3) \<noteq> []
   \<and> has registry ''qwen2'' \<and> get registry ''qwen2'' = Inr (VTemplate qwen2)
     \<and> stop_sequence (parameters qwen2) \<noteq> []"
proof -
  have h: "has registry ''llama3.1''" "has registry ''llama3''" "has registry ''qwen2''"
    by (simp_all add: has_def in_registry_def registry_keys)
  have g: "get registry ''llama3.1'' = Inr (VTemplate llama31)"
    "get registry ''llama3'' = Inr (VTemplate llama3)"
    "get registry ''qwen2'' = Inr (VTemplate qwen2)"
    by (rule get_own, simp, simp add: registry_def)+
  have s: "stop_sequence (parameters llama31) \<noteq> []" "stop_sequence (parameters llama3) \<noteq> []"
    "stop_sequence (parameters qwen2) \<noteq> []"
    by (simp_all add: llama31_def llama3_def qwen2_def)
  show ?thesis using h g s by simp
qed

text \<open>
  C6, as stated, fails for a role mapping that gives a bucket another role than its name:
  with \<^verbatim>\<open>{ user: "human" }\<close> the text of a message whose role is \<^verbatim>\<open>human\<close> is placed
  in the bucket named \<^verbatim>\<open>user\<close>.
\<close>

theorem bucket_name_is_not_the_role_counterexample:
  "groupMessages (roles [(''user'', Some ''human'')]) [\<lparr>role = ''human'', text = ''hi''\<rparr>]
     = [[(''system'', []), (''user'', [''hi'']), (''assistant'', [])]]
   \<and> role \<lparr>role = ''human'', text = ''hi''\<rparr> \<noteq> ''user''"
  by (simp add: roles_human groupMessages_def messageBuckets_def mapValues_def)

text \<open>
  C6, amended. For every role mapping and every sequence of messages, the grouping keeps
  the order of the messages (the \<open>i\<close>-th group is built from the \<open>i\<close>-th message) and
  places the text of a message in exactly the buckets whose mapped role, the value the
  role mapping gives for the bucket's name, is the role of the message; the other buckets
  of the message are empty. A message whose role is none of the mapped roles contributes
  to no bucket and is dropped silently: every bucket handed to the renderer for it is the
  empty array, so a renderer that emits a section only for a non-empty bucket omits the
  message from every section.
\<close>

theorem grouping_by_mapped_role:
  "length (groupMessages (roles ov) ms) = length ms
   \<and> (i < length ms \<longrightarrow>
        map_of (groupMessages (roles ov) ms ! i) b
          = map_option (\<lambda>r. if role (ms ! i) = r then [text (ms ! i)] else [])
              (map_of (roles ov) b))
   \<and> (role m \<notin> snd ` set (roles ov) \<longrightarrow>
        snd ` set (messageBuckets (roles ov) m) \<subseteq> {[]}
        \<and> bucketsView (messageBuckets (roles ov) m)
            = Obj (map (\<lambda>(k, r). (k, Arr [])) (roles ov)))"
proof (intro conjI impI)
  show "length (groupMessages (roles ov) ms) = length ms"
    by (simp add: groupMessages_def)
next
  assume "i < length ms"
  then show "map_of (groupMessages (roles ov) ms ! i) b
      = map_option (\<lambda>r. if role (ms ! i) = r then [text (ms ! i)] else []) (map_of (roles ov) b)"
    by (rule group_nth)
next
  assume "role m \<notin> snd ` set (roles ov)"
  then show "snd ` set (messageBuckets (roles ov) m) \<subseteq> {[]}"
    by (rule empty_buckets)
next
  assume "role m \<notin> snd ` set (roles ov)"
  then show "bucketsView (messageBuckets (roles ov) m)
      = Obj (map (\<lambda>(k, r). (k, Arr [])) (roles ov))"
    by (rule empty_view)
qed

theorem grouping_by_mapped_role_witness:
  "map_of (groupMessages (roles [(''user'', Some ''human'')])
       [\<lparr>role = ''human'', text = ''hi''\<rparr>] ! 0) ''user'' = Some [''hi'']
   \<and> map_of (groupMessages (roles [(''user'', Some ''human'')])
       [\<lparr>role = ''human'', text = ''hi''\<rparr>] ! 0) ''system'' = Some []
   \<and> snd ` set (messageBuckets (roles [(''user'', Some ''human'')])
         \<lparr>role = ''user'', text = ''x''\<rparr>) \<subseteq> {[]}
   \<and> bucketsView (messageBuckets (roles [(''user'', Some ''human'')])
         \<lparr>role = ''user'', text = ''x''\<rparr>)
       = Obj [(''system'', Arr []), (''user'', Arr []), (''assistant'', Arr [])]"
  using grouping_by_mapped_role [of "[(''user'', Some ''human'')]"
      "[\<lparr>role = ''human'', text = ''hi''\<rparr>]" 0 "''user''" "\<lparr>role = ''user'', text = ''x''\<rparr>"]
    grouping_by_mapped_role [of "[(''user'', Some ''human'')]"
      "[\<lparr>role = ''human'', text = ''hi''\<rparr>]" 0 "''system''" "\<lparr>role = ''user'', text = ''x''\<rparr>"]
  by (simp add: roles_human)

text \<open>
  C7. Rendering the messages system, user, assistant through the llama3 templates gives
  one string: the text of each message between the header of its role and the end-of-turn
  marker, in the order of the messages, followed by an open assistant header with no
  end-of-turn marker after it.
\<close>

theorem llama3_renders_three_turns:
  "messagesToPrompt llama3 (template llama3)
     [\<lparr>role = ''system'', text = s\<rparr>, \<lparr>role = ''user'', text = u\<rparr>,
      \<lparr>role = ''assistant'', text = a\<rparr>]
   = Some (''<|begin_of_text|><|start_header_id|>system<|end_header_id|>\<newline>\<newline>'' @ s @ ''<|eot_id|>''
       @ ''<|start_header_id|>user<|end_header_id|>\<newline>\<newline>'' @ u @ ''<|eot_id|>''
       @ ''<|start_header_id|>assistant<|end_header_id|>\<newline>\<newline>'' @ a @ ''<|eot_id|>''
       @ ''<|start_header_id|>assistant<|end_header_id|>\<newline>'')
   \<and> messagesToPrompt llama31 (template llama31)
     [\<lparr>role = ''system'', text = s\<rparr>, \<lparr>role = ''user'', text = u\<rparr>,
      \<lparr>role = ''assistant'', text = a\<rparr>]
   = Some (''<|begin_of_text|><|start_header_id|>system<|end_header_id|>\<newline>\<newline>'' @ s @ ''<|eot_id|>''
       @ ''<|start_header_id|>user<|end_header_id|>\<newline>\<newline>'' @ u @ ''<|eot_id|>''
       @ ''<|start_header_id|>assistant<|end_header_id|>\<newline>\<newline>'' @ a @ ''<|eot_id|>''
       @ ''<|start_header_id|>assistant<|end_header_id|>\<newline>'')"
  unfolding llama3_messages llama31_messages by simp

text \<open>
  C8. \<^verbatim>\<open>INSTRUMENTATION_IGNORED_KEYS\<close> is the value of the environment variable
  \<^verbatim>\<open>BEE_FRAMEWORK_INSTRUMENTATION_IGNORED_KEYS\<close> split on commas, without the empty
  entries: the empty list when the variable is not set, and \<^verbatim>\<open>["a", "b"]\<close> when it is
  \<^verbatim>\<open>a,,b\<close>. The pieces of the split, joined by commas, give the value back, and none
  contains a comma.
\<close>

theorem ignored_keys:
  "INSTRUMENTATION_IGNORED_KEYS (env(''BEE_FRAMEWORK_INSTRUMENTATION_IGNORED_KEYS'' := None)) = []
   \<and> INSTRUMENTATION_IGNORED_KEYS (env(''BEE_FRAMEWORK_INSTRUMENTATION_IGNORED_KEYS'' \<mapsto> ''a,,b''))
       = [''a'', ''b'']
   \<and> INSTRUMENTATION_IGNORED_KEYS (env(''BEE_FRAMEWORK_INSTRUMENTATION_IGNORED_KEYS'' \<mapsto> s))
       = filter (\<lambda>item. item \<noteq> []) (split_on CHR '','' s)
   \<and> join '','' (split_on CHR '','' s) = s
   \<and> CHR '','' \<notin> set (concat (split_on CHR '','' s))"
proof -
  have "CHR '','' \<notin> set (concat (split_on CHR '','' s))"
    using split_on_no_sep [of _ "CHR '',''" s] by auto
  then show ?thesis
    by (simp add: INSTRUMENTATION_IGNORED_KEYS_def parseEnv_def join_split_on)
qed

text \<open>
  C9. \<^verbatim>\<open>register\<close> is atomic on failure: for every model name \<open>m\<close> that is a registered
  key and every template \<open>t\<close>, \<^verbatim>\<open>register(m, t, false)\<close> throws and leaves the registry
  unchanged, so that \<^verbatim>\<open>get(m')\<close> returns afterwards what it returned before, for every
  \<open>m'\<close>.
\<close>

theorem register_conflict_keeps_registry:
  assumes "m \<in> set (Object_keys reg)"
  shows "register reg m t False = (Inl (ValueError (already_exists m) None), reg)
       \<and> get (snd (register reg m t False)) m' = get reg m'"
  using assms by (simp add: register_def in_registry_def)

theorem register_conflict_keeps_registry_witness:
  "register registry ''llama3'' qwen2 False
     = (Inl (ValueError (already_exists ''llama3'') None), registry)
   \<and> get (snd (register registry ''llama3'' qwen2 False)) ''llama3'' = Inr (VTemplate llama3)"
proof -
  have k: "''llama3'' \<in> set (Object_keys registry)" by (simp add: registry_keys)
  have g: "get registry ''llama3'' = Inr (VTemplate llama3)"
    by (rule get_own, simp, simp add: registry_def)
  show ?thesis
    using register_conflict_keeps_registry [OF k, of qwen2 "''llama3''"] g by simp
qed

text \<open>
  C10. The empty model name is accepted by registration and invisible to lookup: when the
  empty string is not yet a key, \<^verbatim>\<open>register("", t)\<close> succeeds and stores \<open>t\<close> under it;
  afterwards \<^verbatim>\<open>has("")\<close> is still false and \<^verbatim>\<open>get("")\<close> still throws the
  ``not found'' error.
\<close>

theorem empty_name_registered_but_hidden:
  assumes "[] \<notin> set (Object_keys reg)"
  shows "fst (register reg [] t False) = Inr ()
       \<and> map_of (own (snd (register reg [] t False))) [] = Some t
       \<and> \<not> has (snd (register reg [] t False)) []
       \<and> get (snd (register reg [] t False)) []
           = Inl (ValueError (not_found []) (Some (Object_keys (snd (register reg [] t False)))))"
proof -
  have r: "register reg [] t False = (Inr (), reg\<lparr>own := create_own [] t (own reg)\<rparr>)"
    using assms by (simp add: register_def in_registry_def empty_not_inherited set_property_def)
  have m: "map_of (create_own [] t (own reg)) [] = Some t"
    using assms by (simp add: Object_keys_def map_of_create_own)
  show ?thesis unfolding r using m by (simp add: has_def get_def)
qed

theorem empty_name_registered_but_hidden_witness:
  "fst (register registry [] llama3 False) = Inr ()
   \<and> \<not> has (snd (register registry [] llama3 False)) []
   \<and> get (snd (register registry [] llama3 False)) []
       = Inl (ValueError (not_found []) (Some [''llama3.1'', ''llama3'', ''qwen2'', []]))"
proof -
  have k: "[] \<notin> set (Object_keys registry)" by (simp add: registry_keys)
  have o: "Object_keys (snd (register registry [] llama3 False))
      = [''llama3.1'', ''llama3'', ''qwen2'', []]"
    by (simp add: register_def in_registry_def empty_not_inherited registry_keys set_property_def)
       (simp add: registry_def Object_keys_def key_before_def array_index_def)
  show ?thesis
    using empty_name_registered_but_hidden [OF k, of llama3] by (simp add: o)
qed

end
